theory Spec2Isabelle
  imports Main "HOL-Library.Multiset" "HOL-Library.AList"
begin

section \<open>Python values, errors and builtins used by the engine\<close>

text \<open>
  The module \<^verbatim>\<open>flask_appbuilder/models/generic/__init__.py\<close> is Python 2 code
  (\<^verbatim>\<open>__metaclass__\<close>, indexing the list returned by \<^verbatim>\<open>dict.keys()\<close>).
  Every \<^verbatim>\<open>raise\<close> and every exception of a builtin is a value \<open>Inl e\<close> of a
  result type \<open>error + 'a\<close>.
\<close>

datatype error =
    TypeError
  | ValueError
  | KeyError
  | AttributeError
  | PKMissingException string

text \<open>
  Data values held in record fields and passed as literals: Python's unbounded integers,
  byte strings and \<^verbatim>\<open>None\<close>. The types a column can declare and the types
  \<^verbatim>\<open>type(v)\<close> can return are \<^verbatim>\<open>int\<close>, \<^verbatim>\<open>str\<close>, \<^verbatim>\<open>NoneType\<close>.
\<close>

datatype pyval = VInt int | VStr string | VNone

datatype pytype = TInt | TStr | TNoneType

fun type_of :: "pyval \<Rightarrow> pytype" where
  "type_of (VInt i) = TInt"
| "type_of (VStr s) = TStr"
| "type_of VNone = TNoneType"

definition py_isspace :: "char \<Rightarrow> bool" where
  "py_isspace c \<longleftrightarrow> c \<in> {CHR '' '', CHR 0x09, CHR 0x0A, CHR 0x0B, CHR 0x0C, CHR 0x0D}"

definition py_isdigit :: "char \<Rightarrow> bool" where
  "py_isdigit c \<longleftrightarrow> 48 \<le> (of_char c :: nat) \<and> (of_char c :: nat) \<le> 57"

definition py_strip :: "string \<Rightarrow> string" where
  "py_strip s = rev (dropWhile py_isspace (rev (dropWhile py_isspace s)))"

text \<open>\<^verbatim>\<open>str.split()\<close> with no argument: the maximal runs of non-whitespace.\<close>

fun split_from :: "string \<Rightarrow> string \<Rightarrow> string list" where
  "split_from w [] = (if w = [] then [] else [w])"
| "split_from w (c # cs) =
     (if py_isspace c then (if w = [] then split_from [] cs else w # split_from [] cs)
      else split_from (w @ [c]) cs)"

definition py_split :: "string \<Rightarrow> string list" where
  "py_split s = split_from [] s"

text \<open>
  \<^verbatim>\<open>int(s)\<close> on a string, base 10: surrounding whitespace is dropped, one optional
  sign, then one or more decimal digits; anything else is a \<^verbatim>\<open>ValueError\<close>.
\<close>

definition digits_value :: "string \<Rightarrow> int" where
  "digits_value ds = int (fold (\<lambda>c n. 10 * n + (of_char c - 48)) ds (0::nat))"

definition int_of_str :: "string \<Rightarrow> error + int" where
  "int_of_str s =
     (let t = py_strip s;
          neg = (t \<noteq> [] \<and> hd t = CHR ''-'');
          ds = (if t \<noteq> [] \<and> (hd t = CHR ''-'' \<or> hd t = CHR ''+'') then tl t else t)
      in if ds \<noteq> [] \<and> list_all py_isdigit ds
         then Inr (if neg then - digits_value ds else digits_value ds)
         else Inl ValueError)"

text \<open>\<^verbatim>\<open>str(i)\<close> on an integer: its decimal digits, with a leading minus sign.\<close>

function str_of_nat :: "nat \<Rightarrow> string" where
  "str_of_nat n =
     (if n < 10 then [char_of (48 + n)]
      else str_of_nat (n div 10) @ [char_of (48 + n mod 10)])"
  by pat_completeness auto
termination
  by (relation "measure id") auto

definition str_of_int :: "int \<Rightarrow> string" where
  "str_of_int i = (if i < 0 then CHR ''-'' # str_of_nat (nat (- i)) else str_of_nat (nat i))"

text \<open>
  Calling a type on a value, \<^verbatim>\<open>T(v)\<close>: \<^verbatim>\<open>int(None)\<close> is a \<^verbatim>\<open>TypeError\<close>,
  \<^verbatim>\<open>str(None)\<close> is the string \<^verbatim>\<open>'None'\<close>, and \<^verbatim>\<open>NoneType\<close> cannot be called.
\<close>

fun py_call :: "pytype \<Rightarrow> pyval \<Rightarrow> error + pyval" where
  "py_call TInt (VInt i) = Inr (VInt i)"
| "py_call TInt (VStr s) = (case int_of_str s of Inl e \<Rightarrow> Inl e | Inr i \<Rightarrow> Inr (VInt i))"
| "py_call TInt VNone = Inl TypeError"
| "py_call TStr (VInt i) = Inr (VStr (str_of_int i))"
| "py_call TStr (VStr s) = Inr (VStr s)"
| "py_call TStr VNone = Inr (VStr ''None'')"
| "py_call TNoneType v = Inl TypeError"

section \<open>Column descriptors, record types and records\<close>

record GenericColumn =
  col_type :: pytype
  primary_key :: bool
  unique :: bool
  nullable :: bool

definition GenericColumn_init :: "pytype \<Rightarrow> bool \<Rightarrow> bool \<Rightarrow> bool \<Rightarrow> GenericColumn" where
  "GenericColumn_init t p u n = \<lparr>col_type = t, primary_key = p, unique = u, nullable = n\<rparr>"

text \<open>
  A record type is the class object that \<^verbatim>\<open>MetaGenericModel.__new__\<close> returns. Its
  fields are the attributes the metaclass sets on it: \<^verbatim>\<open>_name\<close>, \<^verbatim>\<open>_col_defs\<close>
  (\<^verbatim>\<open>properties\<close> is the same dictionary object), \<^verbatim>\<open>columns\<close> (the list of its keys)
  and \<^verbatim>\<open>pk\<close>. The metaclass assigns \<^verbatim>\<open>obj.pk\<close> only inside the loop, when a column is
  flagged; otherwise the class has no \<^verbatim>\<open>pk\<close> attribute of its own, and the default
  \<^verbatim>\<open>pk = None\<close> lives on the metaclass, where attribute lookup on an \<^emph>\<open>instance\<close>
  of the class does not look (only the instance and the classes of its MRO are searched).
  So \<open>pk = None\<close> below is "the class has no attribute pk", and reading \<^verbatim>\<open>self.pk\<close>
  then raises \<^verbatim>\<open>AttributeError\<close>.

  The dictionaries are association lists whose order stands for the iteration order of
  the dictionary. Record types derive from \<^verbatim>\<open>GenericModel\<close> directly, and column names
  are identifiers other than the attributes named above.
\<close>

record model_cls =
  cls_name :: string
  col_defs :: "(string \<times> GenericColumn) list"
  columns :: "string list"
  pk :: "string option"

datatype cls_attr = Column GenericColumn | Other

fun collect_columns ::
  "(string \<times> cls_attr) list \<Rightarrow> (string \<times> GenericColumn) list \<Rightarrow> (string \<times> GenericColumn) list"
where
  "collect_columns [] d = d"
| "collect_columns ((prop, Column c) # dct) d = collect_columns dct (AList.update prop c d)"
| "collect_columns ((prop, Other) # dct) d = collect_columns dct d"

fun find_pk :: "(string \<times> GenericColumn) list \<Rightarrow> string list \<Rightarrow> string option" where
  "find_pk d [] = None"
| "find_pk d (col # cols) =
     (case map_of d col of
        Some c \<Rightarrow> (if primary_key c then Some col else find_pk d cols)
      | None \<Rightarrow> find_pk d cols)"

definition MetaGenericModel_new :: "string \<Rightarrow> (string \<times> cls_attr) list \<Rightarrow> model_cls" where
  "MetaGenericModel_new name dct =
     (let d = collect_columns dct []
      in \<lparr>cls_name = name, col_defs = d, columns = map fst d, pk = find_pk d (map fst d)\<rparr>)"

text \<open>
  Class objects are shared and mutable: records hold a reference to their class, and the
  heap maps references to class objects.
\<close>

type_synonym cls_ref = nat
type_synonym heap = "cls_ref \<Rightarrow> model_cls"

record item =
  item_cls :: cls_ref
  item_dict :: "(string \<times> pyval) list"

text \<open>
  \<^verbatim>\<open>getattr(item, name)\<close>: the instance dictionary first, then the class, where a
  declared column is the \<^verbatim>\<open>GenericColumn\<close> object itself.
\<close>

datatype attr = Data pyval | Descriptor GenericColumn

definition getattr :: "heap \<Rightarrow> item \<Rightarrow> string \<Rightarrow> error + attr" where
  "getattr H it name =
     (case map_of (item_dict it) name of
        Some v \<Rightarrow> Inr (Data v)
      | None \<Rightarrow>
          (case map_of (col_defs (H (item_cls it))) name of
             Some c \<Rightarrow> Inr (Descriptor c)
           | None \<Rightarrow> Inl AttributeError))"

fun set_kwargs ::
  "model_cls \<Rightarrow> (string \<times> pyval) list \<Rightarrow> string list \<Rightarrow> (string \<times> pyval) list
   \<Rightarrow> (string \<times> pyval) list"
where
  "set_kwargs c kwargs [] d = d"
| "set_kwargs c kwargs (arg # args) d =
     set_kwargs c kwargs args
       (if map_of (col_defs c) arg \<noteq> None
        then AList.update arg (case map_of kwargs arg of Some v \<Rightarrow> v | None \<Rightarrow> VNone) d
        else d)"

text \<open>
  \<^verbatim>\<open>GenericModel.__init__\<close> on a fresh instance of the class at \<open>r\<close>: the new record
  or the exception, and the heap afterwards.
\<close>

definition GenericModel_init ::
  "heap \<Rightarrow> cls_ref \<Rightarrow> (string \<times> pyval) list \<Rightarrow> (error + item) \<times> heap"
where
  "GenericModel_init H r kwargs =
     (let c = H r;
          new = (\<lambda>H'. \<lparr>item_cls = r, item_dict = set_kwargs (H' r) kwargs (map fst kwargs) []\<rparr>)
      in case pk c of
           None \<Rightarrow> (Inl AttributeError, H)
         | Some p \<Rightarrow>
             if p = [] then
               (if length (columns c) = 1 then
                  (case map_of (col_defs c) (columns c ! 0) of
                     None \<Rightarrow> (Inl KeyError, H)
                   | Some col \<Rightarrow>
                       (let H' = H(r := c\<lparr>col_defs :=
                                  AList.update (columns c ! 0) (col\<lparr>primary_key := True\<rparr>) (col_defs c)\<rparr>)
                        in (Inr (new H'), H')))
                else (Inl (PKMissingException (cls_name c)), H))
             else (Inr (new H), H))"

section \<open>Comparison, membership and sorting as the engine uses them\<close>

text \<open>Byte strings compare lexicographically by byte value.\<close>

fun str_lt :: "string \<Rightarrow> string \<Rightarrow> bool" where
  "str_lt [] [] = False"
| "str_lt [] (y # ys) = True"
| "str_lt (x # xs) [] = False"
| "str_lt (x # xs) (y # ys) =
     (if x = y then str_lt xs ys else (of_char x :: nat) < of_char y)"

text \<open>
  Python 2 orders values of different types too, and never raises: \<^verbatim>\<open>None\<close> is below
  everything, numbers are below other objects, and other objects are ordered by the name
  of their type (\<^verbatim>\<open>GenericColumn\<close> before \<^verbatim>\<open>str\<close>). A class-level descriptor read
  through two records of one class is one object, so it is not below itself.
\<close>

fun py_rank :: "attr \<Rightarrow> nat" where
  "py_rank (Data VNone) = 0"
| "py_rank (Data (VInt i)) = 1"
| "py_rank (Descriptor c) = 2"
| "py_rank (Data (VStr s)) = 3"

fun py_lt :: "attr \<Rightarrow> attr \<Rightarrow> bool" where
  "py_lt (Data (VInt a)) (Data (VInt b)) = (a < b)"
| "py_lt (Data (VStr a)) (Data (VStr b)) = str_lt a b"
| "py_lt x y = (py_rank x < py_rank y)"

text \<open>
  \<^verbatim>\<open>sorted(data, key=operator.attrgetter(col_name), reverse=reverse_flag)\<close>: the key of
  every element is computed first (a missing attribute raises there), then the list is
  sorted by a stable sort that compares keys with \<^verbatim>\<open><\<close> only. With
  \<^verbatim>\<open>reverse=True\<close> the list is reversed, sorted the same way and reversed again. The
  stable sort is written as insertion from the right; any stable sort gives the same list.
\<close>

fun attr_keys :: "heap \<Rightarrow> string \<Rightarrow> item list \<Rightarrow> error + (attr \<times> item) list" where
  "attr_keys H col [] = Inr []"
| "attr_keys H col (it # its) =
     (case getattr H it col of
        Inl e \<Rightarrow> Inl e
      | Inr k \<Rightarrow>
          (case attr_keys H col its of
             Inl e \<Rightarrow> Inl e
           | Inr ps \<Rightarrow> Inr ((k, it) # ps)))"

fun insort_lt :: "attr \<times> 'a \<Rightarrow> (attr \<times> 'a) list \<Rightarrow> (attr \<times> 'a) list" where
  "insort_lt p [] = [p]"
| "insort_lt p (q # qs) = (if py_lt (fst q) (fst p) then q # insort_lt p qs else p # q # qs)"

definition stable_sort :: "(attr \<times> 'a) list \<Rightarrow> (attr \<times> 'a) list" where
  "stable_sort ps = foldr insort_lt ps []"

definition py_sorted :: "heap \<Rightarrow> item list \<Rightarrow> string \<Rightarrow> bool \<Rightarrow> error + item list" where
  "py_sorted H data col reverse_flag =
     (case attr_keys H col data of
        Inl e \<Rightarrow> Inl e
      | Inr ps \<Rightarrow>
          Inr (map snd (if reverse_flag then rev (stable_sort (rev ps)) else stable_sort ps)))"

text \<open>\<^verbatim>\<open>sub in s\<close> on strings: \<open>sub\<close> starts at some position of \<open>s\<close>.\<close>

fun is_substr :: "string \<Rightarrow> string \<Rightarrow> bool" where
  "is_substr sub [] = (sub = [])"
| "is_substr sub (c # cs) = (take (length sub) (c # cs) = sub \<or> is_substr sub cs)"

text \<open>
  \<^verbatim>\<open>value in container\<close>: defined when both are strings; an integer, \<^verbatim>\<open>None\<close> or a
  \<^verbatim>\<open>GenericColumn\<close> is not iterable, and a string container requires a string on the left.
\<close>

fun py_in :: "pyval \<Rightarrow> attr \<Rightarrow> error + bool" where
  "py_in (VStr sub) (Data (VStr s)) = Inr (is_substr sub s)"
| "py_in v a = Inl TypeError"

text \<open>List slicing \<^verbatim>\<open>xs[lo:hi]\<close> with integer bounds.\<close>

definition clamp_index :: "int \<Rightarrow> nat \<Rightarrow> nat" where
  "clamp_index i n = (if i < 0 then nat (max (i + int n) 0) else min (nat i) n)"

definition py_slice :: "'a list \<Rightarrow> int \<Rightarrow> int \<Rightarrow> 'a list" where
  "py_slice xs lo hi =
     (let a = clamp_index lo (length xs); b = clamp_index hi (length xs)
      in take (b - a) (drop a xs))"

section \<open>The query session\<close>

datatype filter_fn = Like | NotLike | Equal | NotEqual

type_synonym filter_cmd = "filter_fn \<times> string \<times> pyval"

text \<open>
  The fields \<^verbatim>\<open>_order_by_cmd\<close>, \<^verbatim>\<open>_filters_cmd\<close>, \<^verbatim>\<open>store\<close>, \<^verbatim>\<open>query_filters\<close>,
  \<^verbatim>\<open>query_class\<close>, \<^verbatim>\<open>_offset\<close> and \<^verbatim>\<open>_limit\<close> of a \<^verbatim>\<open>GenericSession\<close>.
  \<^verbatim>\<open>store.get(k)\<close> is the application \<open>store s k\<close>, with \<open>None\<close> for Python's
  \<^verbatim>\<open>None\<close>.
\<close>

record GenericSession =
  order_by_cmd :: "string option"
  filters_cmd :: "filter_cmd list"
  store :: "string \<rightharpoonup> item list"
  query_filters :: "filter_cmd list"
  query_class :: string
  offset_val :: int
  limit_val :: int

definition GenericSession_init :: GenericSession where
  "GenericSession_init =
     \<lparr>order_by_cmd = None, filters_cmd = [], store = Map.empty, query_filters = [],
      query_class = [], offset_val = 0, limit_val = 0\<rparr>"

definition clear :: "GenericSession \<Rightarrow> GenericSession" where
  "clear s = s\<lparr>store := Map.empty\<rparr>"

definition delete_all :: "heap \<Rightarrow> GenericSession \<Rightarrow> cls_ref \<Rightarrow> GenericSession" where
  "delete_all H s model_cls = s\<lparr>store := (store s)(cls_name (H model_cls) \<mapsto> [])\<rparr>"

definition query :: "heap \<Rightarrow> GenericSession \<Rightarrow> cls_ref \<Rightarrow> GenericSession" where
  "query H s model_cls =
     s\<lparr>filters_cmd := [], query_filters := [], order_by_cmd := None,
       offset_val := 0, limit_val := 0, query_class := cls_name (H model_cls)\<rparr>"

definition order_by :: "GenericSession \<Rightarrow> string \<Rightarrow> GenericSession" where
  "order_by s order_cmd = s\<lparr>order_by_cmd := Some order_cmd\<rparr>"

definition order_by_impl :: "heap \<Rightarrow> item list option \<Rightarrow> string \<Rightarrow> error + item list" where
  "order_by_impl H data order_cmd =
     (case py_split order_cmd of
        [col_name, direction] \<Rightarrow>
          (case data of
             None \<Rightarrow> Inl TypeError
           | Some xs \<Rightarrow> py_sorted H xs col_name (direction = ''desc''))
      | _ \<Rightarrow> Inl ValueError)"

definition like :: "GenericSession \<Rightarrow> string \<Rightarrow> pyval \<Rightarrow> GenericSession" where
  "like s col_name v = s\<lparr>filters_cmd := filters_cmd s @ [(Like, col_name, v)]\<rparr>"

definition like_impl :: "heap \<Rightarrow> item \<Rightarrow> string \<Rightarrow> pyval \<Rightarrow> error + bool" where
  "like_impl H it col_name v =
     (case getattr H it col_name of
        Inl e \<Rightarrow> Inl e
      | Inr a \<Rightarrow> py_in v a)"

definition not_like :: "GenericSession \<Rightarrow> string \<Rightarrow> pyval \<Rightarrow> GenericSession" where
  "not_like s col_name v = s\<lparr>filters_cmd := filters_cmd s @ [(NotLike, col_name, v)]\<rparr>"

definition not_like_impl :: "heap \<Rightarrow> item \<Rightarrow> string \<Rightarrow> pyval \<Rightarrow> error + bool" where
  "not_like_impl H it col_name v =
     (case getattr H it col_name of
        Inl e \<Rightarrow> Inl e
      | Inr a \<Rightarrow> (case py_in v a of Inl e \<Rightarrow> Inl e | Inr b \<Rightarrow> Inr (\<not> b)))"

definition equal :: "GenericSession \<Rightarrow> string \<Rightarrow> pyval \<Rightarrow> GenericSession" where
  "equal s col_name v = s\<lparr>filters_cmd := filters_cmd s @ [(Equal, col_name, v)]\<rparr>"

text \<open>
  \<^verbatim>\<open>source_value == type(source_value)(value)\<close>. When the attribute read is the class's
  descriptor, \<^verbatim>\<open>GenericColumn(value)\<close> builds a new object, and objects without
  \<^verbatim>\<open>__eq__\<close> are equal only to themselves.
\<close>

definition equal_impl :: "heap \<Rightarrow> item \<Rightarrow> string \<Rightarrow> pyval \<Rightarrow> error + bool" where
  "equal_impl H it col_name v =
     (case getattr H it col_name of
        Inl e \<Rightarrow> Inl e
      | Inr (Data source_value) \<Rightarrow>
          (case py_call (type_of source_value) v of
             Inl e \<Rightarrow> Inl e
           | Inr w \<Rightarrow> Inr (source_value = w))
      | Inr (Descriptor c) \<Rightarrow> Inr False)"

definition not_equal :: "GenericSession \<Rightarrow> string \<Rightarrow> pyval \<Rightarrow> GenericSession" where
  "not_equal s col_name v = s\<lparr>filters_cmd := filters_cmd s @ [(NotEqual, col_name, v)]\<rparr>"

definition not_equal_impl :: "heap \<Rightarrow> item \<Rightarrow> string \<Rightarrow> pyval \<Rightarrow> error + bool" where
  "not_equal_impl H it col_name v =
     (case getattr H it col_name of
        Inl e \<Rightarrow> Inl e
      | Inr (Data source_value) \<Rightarrow>
          (case py_call (type_of source_value) v of
             Inl e \<Rightarrow> Inl e
           | Inr w \<Rightarrow> Inr (source_value \<noteq> w))
      | Inr (Descriptor c) \<Rightarrow> Inr True)"

definition offset :: "GenericSession \<Rightarrow> int \<Rightarrow> GenericSession" where
  "offset s n = s\<lparr>offset_val := n\<rparr>"

definition limit :: "GenericSession \<Rightarrow> int \<Rightarrow> GenericSession" where
  "limit s n = s\<lparr>limit_val := n\<rparr>"

fun call_filter :: "heap \<Rightarrow> filter_fn \<Rightarrow> item \<Rightarrow> string \<Rightarrow> pyval \<Rightarrow> error + bool" where
  "call_filter H Like it col v = like_impl H it col v"
| "call_filter H NotLike it col v = not_like_impl H it col v"
| "call_filter H Equal it col v = equal_impl H it col v"
| "call_filter H NotEqual it col v = not_equal_impl H it col v"

text \<open>The inner loop of \<^verbatim>\<open>all\<close>: the value of \<^verbatim>\<open>tmp_flag\<close> after it.\<close>

fun passes :: "heap \<Rightarrow> filter_cmd list \<Rightarrow> item \<Rightarrow> error + bool" where
  "passes H [] it = Inr True"
| "passes H ((f, col, v) # fs) it =
     (case call_filter H f it col v of
        Inl e \<Rightarrow> Inl e
      | Inr b \<Rightarrow> (if \<not> b then Inr False else passes H fs it))"

text \<open>The outer loop of \<^verbatim>\<open>all\<close>: the list \<^verbatim>\<open>items\<close> after it.\<close>

fun filter_items :: "heap \<Rightarrow> filter_cmd list \<Rightarrow> item list \<Rightarrow> error + item list" where
  "filter_items H fs [] = Inr []"
| "filter_items H fs (it # its) =
     (case passes H fs it of
        Inl e \<Rightarrow> Inl e
      | Inr b \<Rightarrow>
          (case filter_items H fs its of
             Inl e \<Rightarrow> Inl e
           | Inr r \<Rightarrow> Inr (if b then it # r else r)))"

text \<open>
  \<^verbatim>\<open>all\<close> in its three steps. The value of \<^verbatim>\<open>items\<close> is a list or \<^verbatim>\<open>None\<close>
  (what \<^verbatim>\<open>store.get\<close> gives for a missing key); iterating \<^verbatim>\<open>None\<close> and
  \<^verbatim>\<open>len(None)\<close> raise \<^verbatim>\<open>TypeError\<close>.
\<close>

definition all_filtered :: "heap \<Rightarrow> GenericSession \<Rightarrow> error + item list option" where
  "all_filtered H s =
     (if filters_cmd s = [] then Inr (store s (query_class s))
      else
        (case store s (query_class s) of
           None \<Rightarrow> Inl TypeError
         | Some xs \<Rightarrow>
             (case filter_items H (filters_cmd s) xs of
                Inl e \<Rightarrow> Inl e
              | Inr ys \<Rightarrow> Inr (Some ys))))"

definition all_ordered :: "heap \<Rightarrow> GenericSession \<Rightarrow> error + item list option" where
  "all_ordered H s =
     (case all_filtered H s of
        Inl e \<Rightarrow> Inl e
      | Inr items \<Rightarrow>
          (case order_by_cmd s of
             None \<Rightarrow> Inr items
           | Some cmd \<Rightarrow>
               if cmd = [] then Inr items
               else
                 (case order_by_impl H items cmd of
                    Inl e \<Rightarrow> Inl e
                  | Inr ys \<Rightarrow> Inr (Some ys))))"

definition all :: "heap \<Rightarrow> GenericSession \<Rightarrow> (error + nat \<times> item list) \<times> GenericSession" where
  "all H s =
     ((case all_ordered H s of
         Inl e \<Rightarrow> Inl e
       | Inr None \<Rightarrow> Inl TypeError
       | Inr (Some items) \<Rightarrow>
           Inr (length items,
                if limit_val s \<noteq> 0
                then py_slice items (offset_val s) (offset_val s + limit_val s)
                else items)),
      s)"

text \<open>
  \<^verbatim>\<open>get\<close>: the loop rebinds \<^verbatim>\<open>pk\<close> to the converted value at every record, and the
  method returns \<^verbatim>\<open>None\<close> when the loop ends.
\<close>

fun get_loop :: "heap \<Rightarrow> item list \<Rightarrow> pyval \<Rightarrow> error + item option" where
  "get_loop H [] pk_arg = Inr None"
| "get_loop H (it # its) pk_arg =
     (case pk (H (item_cls it)) of
        None \<Rightarrow> Inl AttributeError
      | Some k \<Rightarrow>
          (case map_of (col_defs (H (item_cls it))) k of
             None \<Rightarrow> Inl KeyError
           | Some col \<Rightarrow>
               (case py_call (col_type col) pk_arg of
                  Inl e \<Rightarrow> Inl e
                | Inr pk' \<Rightarrow>
                    (case getattr H it k of
                       Inl e \<Rightarrow> Inl e
                     | Inr a \<Rightarrow> (if a = Data pk' then Inr (Some it) else get_loop H its pk')))))"

definition get :: "heap \<Rightarrow> GenericSession \<Rightarrow> pyval \<Rightarrow> (error + item option) \<times> GenericSession" where
  "get H s pk_arg =
     ((case store s (query_class s) of
         None \<Rightarrow> Inl TypeError
       | Some xs \<Rightarrow> get_loop H xs pk_arg),
      s)"

definition scalar :: "GenericSession \<Rightarrow> int" where
  "scalar s = 0"

text \<open>
  \<^verbatim>\<open>add\<close>: \<^verbatim>\<open>not cls_list\<close> holds for \<^verbatim>\<open>None\<close> and for the empty list.
\<close>

definition add :: "heap \<Rightarrow> GenericSession \<Rightarrow> item \<Rightarrow> (error + unit) \<times> GenericSession" where
  "add H s model =
     (let model_cls_name = cls_name (H (item_cls model));
          cls_list = store s model_cls_name;
          s1 = (if cls_list = None \<or> cls_list = Some []
                then s\<lparr>store := (store s)(model_cls_name \<mapsto> [])\<rparr> else s)
      in case store s1 model_cls_name of
           None \<Rightarrow> (Inl KeyError, s1)
         | Some xs \<Rightarrow> (Inr (), s1\<lparr>store := (store s1)(model_cls_name \<mapsto> xs @ [model])\<rparr>))"

section \<open>Example declarations\<close>

text \<open>
  The record type of the docstring of \<^verbatim>\<open>GenericModel\<close>, with columns \<^verbatim>\<open>id\<close>
  (integer, primary key), \<^verbatim>\<open>age\<close> (integer) and \<^verbatim>\<open>name\<close> (string), and sessions
  that hold some of its records.
\<close>

definition MyGenericModel :: model_cls where
  "MyGenericModel =
     MetaGenericModel_new ''MyGenericModel''
       [(''id'', Column (GenericColumn_init TInt True False False)),
        (''age'', Column (GenericColumn_init TInt False False False)),
        (''name'', Column (GenericColumn_init TStr False False False))]"

definition ex_heap :: heap where
  "ex_heap = (\<lambda>r. MyGenericModel)"

definition person :: "int \<Rightarrow> int \<Rightarrow> string \<Rightarrow> item" where
  "person i a n = \<lparr>item_cls = 0, item_dict = [(''id'', VInt i), (''age'', VInt a), (''name'', VStr n)]\<rparr>"

definition five_people :: GenericSession where
  "five_people =
     (query ex_heap GenericSession_init 0)
       \<lparr>store := [''MyGenericModel'' \<mapsto>
          [person 1 30 ''b'', person 2 31 ''b'', person 3 32 ''a'', person 4 33 ''c'', person 5 34 ''d'']]\<rparr>"

definition three_people :: GenericSession where
  "three_people =
     (query ex_heap GenericSession_init 0)
       \<lparr>store := [''MyGenericModel'' \<mapsto> [person 1 30 ''b'', person 2 31 ''b'', person 3 32 ''a'']]\<rparr>"

definition name_key :: "item \<Rightarrow> attr" where
  "name_key it = (case map_of (item_dict it) ''name'' of Some v \<Rightarrow> Data v | None \<Rightarrow> Data VNone)"

section \<open>Auxiliary facts\<close>

lemma str_lt_irrefl: "\<not> str_lt a a"
  by (induction a) auto

lemma str_lt_trans: "str_lt a b \<Longrightarrow> str_lt b c \<Longrightarrow> str_lt a c"
proof (induction a b arbitrary: c rule: str_lt.induct)
  case (4 x xs y ys)
  then show ?case by (cases c) (auto split: if_splits)
qed (auto elim: str_lt.elims)

lemma str_lt_total: "str_lt a b \<or> a = b \<or> str_lt b a"
proof (induction a b rule: str_lt.induct)
  case (4 x xs y ys)
  have "x = y \<or> (of_char x :: nat) < of_char y \<or> (of_char y :: nat) < of_char x"
    using of_char_eq_iff [of x y, where ?'a = nat] by linarith
  with 4 show ?case by auto
qed auto

lemma str_lt_cotrans: "str_lt a c \<Longrightarrow> str_lt a b \<or> str_lt b c"
  using str_lt_total [of a b] str_lt_total [of b c] str_lt_trans by blast

lemma py_lt_irrefl: "\<not> py_lt a a"
  by (cases a rule: py_rank.cases) (auto simp: str_lt_irrefl)

lemma py_lt_asym: "py_lt a b \<Longrightarrow> \<not> py_lt b a"
  by (cases a rule: py_rank.cases; cases b rule: py_rank.cases)
     (auto dest: str_lt_trans simp: str_lt_irrefl)

lemma py_lt_cotrans: "py_lt a c \<Longrightarrow> py_lt a b \<or> py_lt b c"
  by (cases a rule: py_rank.cases; cases b rule: py_rank.cases; cases c rule: py_rank.cases)
     (auto dest: str_lt_cotrans)

lemma set_insort_lt: "set (insort_lt p qs) = insert p (set qs)"
  by (induction qs) auto

lemma mset_insort_lt: "mset (insort_lt p qs) = add_mset p (mset qs)"
  by (induction qs) auto

lemma mset_stable_sort: "mset (stable_sort ps) = mset ps"
  by (induction ps) (auto simp: stable_sort_def mset_insort_lt)

lemma sorted_insort_lt:
  "sorted_wrt (\<lambda>p q. \<not> py_lt (fst q) (fst p)) qs \<Longrightarrow>
   sorted_wrt (\<lambda>p q. \<not> py_lt (fst q) (fst p)) (insort_lt p qs)"
proof (induction qs)
  case Nil
  then show ?case by simp
next
  case (Cons q qs)
  show ?case
  proof (cases "py_lt (fst q) (fst p)")
    case True
    with Cons show ?thesis
      by (auto simp: set_insort_lt dest: py_lt_asym)
  next
    case False
    have "\<not> py_lt (fst x) (fst p)" if "x \<in> set qs" for x
    proof
      assume "py_lt (fst x) (fst p)"
      then have "py_lt (fst x) (fst q) \<or> py_lt (fst q) (fst p)" by (rule py_lt_cotrans)
      with False Cons.prems that show False by auto
    qed
    with False Cons.prems show ?thesis by auto
  qed
qed

lemma sorted_stable_sort: "sorted_wrt (\<lambda>p q. \<not> py_lt (fst q) (fst p)) (stable_sort ps)"
proof (induction ps)
  case Nil
  show ?case by (simp add: stable_sort_def)
next
  case (Cons p ps)
  then show ?case using sorted_insort_lt [of "stable_sort ps" p] by (simp add: stable_sort_def)
qed

lemma filter_insort_lt:
  "filter (\<lambda>p. fst p = k) (insort_lt p qs) = filter (\<lambda>p. fst p = k) (p # qs)"
  by (induction qs) (auto simp: py_lt_irrefl)

lemma filter_stable_sort: "filter (\<lambda>p. fst p = k) (stable_sort ps) = filter (\<lambda>p. fst p = k) ps"
proof (induction ps)
  case Nil
  show ?case by (simp add: stable_sort_def)
next
  case (Cons p ps)
  have "filter (\<lambda>p. fst p = k) (stable_sort (p # ps)) = filter (\<lambda>p. fst p = k) (p # stable_sort ps)"
    by (simp only: stable_sort_def foldr.simps o_apply filter_insort_lt)
  with Cons show ?case by simp
qed

lemma attr_keys_ok:
  "\<forall>it\<in>set data. getattr H it col = Inr (key it) \<Longrightarrow>
   attr_keys H col data = Inr (map (\<lambda>it. (key it, it)) data)"
  by (induction data) auto

lemma MyGenericModel_eval:
  "MyGenericModel =
     \<lparr>cls_name = ''MyGenericModel'',
      col_defs = [(''id'', GenericColumn_init TInt True False False),
                  (''age'', GenericColumn_init TInt False False False),
                  (''name'', GenericColumn_init TStr False False False)],
      columns = [''id'', ''age'', ''name''], pk = Some ''id''\<rparr>"
  by (simp add: MyGenericModel_def MetaGenericModel_new_def GenericColumn_init_def)

lemmas all_defs = all_def all_ordered_def all_filtered_def

section \<open>The claims\<close>

text \<open>
  Claim C10. \<^verbatim>\<open>add(record)\<close> never fails. Afterwards the store's sequence for the
  record's schema name is the prior sequence (an absent entry counting as empty) with the
  record appended as last element; the sequences of all other schema names and the builder
  state are as before.
\<close>

theorem add_appends_record:
  "add H s m =
     (Inr (),
      s\<lparr>store := (store s)(cls_name (H (item_cls m)) \<mapsto>
           (case store s (cls_name (H (item_cls m))) of None \<Rightarrow> [] | Some xs \<Rightarrow> xs) @ [m])\<rparr>)"
  by (cases "store s (cls_name (H (item_cls m)))") (auto simp: add_def Let_def)

text \<open>
  Claim C9. \<^verbatim>\<open>all()\<close> and \<^verbatim>\<open>get(pk)\<close> are pure readers: the session after the call
  (store, filters, ordering directive, offset, limit, target schema) is the session before
  it, so a second \<^verbatim>\<open>all()\<close> right after the first returns the same result.
\<close>

theorem all_get_leave_session_unchanged:
  "snd (all H s) = s \<and> snd (get H s pk_arg) = s \<and> fst (all H (snd (all H s))) = fst (all H s)"
  by (simp add: all_def get_def)

text \<open>
  Claim C4. For a record whose stored field value is \<open>v\<close>, \<^verbatim>\<open>equal(field, l)\<close> is
  true iff \<open>v\<close> equals \<open>l\<close> converted by the runtime type of \<open>v\<close> (the column's declared
  type plays no part), \<^verbatim>\<open>not_equal\<close> is its negation, and a literal that cannot be
  converted raises the conversion error to the caller.
\<close>

theorem equal_coerces_to_stored_type:
  assumes "map_of (item_dict it) field = Some v"
  shows "equal_impl H it field l =
           (case py_call (type_of v) l of Inl e \<Rightarrow> Inl e | Inr w \<Rightarrow> Inr (v = w)) \<and>
         not_equal_impl H it field l =
           (case py_call (type_of v) l of Inl e \<Rightarrow> Inl e | Inr w \<Rightarrow> Inr (\<not> v = w))"
  using assms by (simp add: equal_impl_def not_equal_impl_def getattr_def)

lemma int_of_str_30: "int_of_str ''30'' = Inr 30"
  by (simp add: int_of_str_def py_strip_def py_isspace_def py_isdigit_def digits_value_def)

lemma int_of_str_30_5: "int_of_str ''30.5'' = Inl ValueError"
  by (simp add: int_of_str_def py_strip_def py_isspace_def py_isdigit_def digits_value_def)

theorem equal_coerces_to_stored_type_witness:
  "map_of (item_dict (person 1 30 ''b'')) ''age'' = Some (VInt 30) \<and>
   equal_impl ex_heap (person 1 30 ''b'') ''age'' (VStr ''30'') = Inr True \<and>
   not_equal_impl ex_heap (person 1 30 ''b'') ''age'' (VStr ''30'') = Inr False \<and>
   equal_impl ex_heap (person 1 30 ''b'') ''age'' (VStr ''30.5'') = Inl ValueError \<and>
   not_equal_impl ex_heap (person 1 30 ''b'') ''age'' (VStr ''30.5'') = Inl ValueError"
proof -
  have h: "map_of (item_dict (person 1 30 ''b'')) ''age'' = Some (VInt 30)"
    by (simp add: person_def)
  show ?thesis
    using h equal_coerces_to_stored_type [OF h, of ex_heap "VStr ''30''"]
      equal_coerces_to_stored_type [OF h, of ex_heap "VStr ''30.5''"]
    by (simp add: int_of_str_30 int_of_str_30_5)
qed

lemma is_substr_iff: "is_substr sub s \<longleftrightarrow> (\<exists>p q. s = p @ sub @ q)"
proof (induction s)
  case Nil
  show ?case by auto
next
  case (Cons c cs)
  have "take (length sub) (c # cs) = sub \<longleftrightarrow> (\<exists>q. c # cs = sub @ q)"
    by (metis append_eq_conv_conj append_take_drop_id)
  moreover have "(\<exists>p q. c # cs = p @ sub @ q) \<longleftrightarrow> (\<exists>q. c # cs = sub @ q) \<or> (\<exists>p q. cs = p @ sub @ q)"
  proof
    assume "\<exists>p q. c # cs = p @ sub @ q"
    then obtain p q where pq: "c # cs = p @ sub @ q" by blast
    show "(\<exists>q. c # cs = sub @ q) \<or> (\<exists>p q. cs = p @ sub @ q)"
    proof (cases p)
      case Nil
      with pq show ?thesis by auto
    next
      case (Cons a p')
      with pq have "cs = p' @ sub @ q" by simp
      then show ?thesis by blast
    qed
  next
    assume "(\<exists>q. c # cs = sub @ q) \<or> (\<exists>p q. cs = p @ sub @ q)"
    then show "\<exists>p q. c # cs = p @ sub @ q"
    proof
      assume "\<exists>q. c # cs = sub @ q"
      then obtain q where "c # cs = [] @ sub @ q" by auto
      then show ?thesis by blast
    next
      assume "\<exists>p q. cs = p @ sub @ q"
      then obtain p q where "c # cs = (c # p) @ sub @ q" by auto
      then show ?thesis by blast
    qed
  qed
  ultimately show ?case using Cons.IH by simp
qed

text \<open>
  Claim C7, as amended. For a record whose stored field value is a string \<open>s\<close>,
  \<^verbatim>\<open>like(field, sub)\<close> is true iff \<open>sub\<close> occurs somewhere within \<open>s\<close>, and
  \<^verbatim>\<open>not_like\<close> is its negation. The stored value is not rendered as a string: when it
  is an integer or \<^verbatim>\<open>None\<close>, both predicates raise \<^verbatim>\<open>TypeError\<close>.
\<close>

theorem like_on_stored_string:
  assumes "map_of (item_dict it) field = Some v"
  shows "like_impl H it field (VStr sub) =
           (case v of VStr s \<Rightarrow> Inr (\<exists>p q. s = p @ sub @ q) | _ \<Rightarrow> Inl TypeError) \<and>
         not_like_impl H it field (VStr sub) =
           (case v of VStr s \<Rightarrow> Inr (\<not> (\<exists>p q. s = p @ sub @ q)) | _ \<Rightarrow> Inl TypeError)"
  using assms
  by (cases v) (simp_all add: like_impl_def not_like_impl_def getattr_def is_substr_iff)

theorem like_on_stored_string_witness:
  "map_of (item_dict (person 1 30 ''bob'')) ''name'' = Some (VStr ''bob'') \<and>
   like_impl ex_heap (person 1 30 ''bob'') ''name'' (VStr ''ob'') = Inr True \<and>
   not_like_impl ex_heap (person 1 30 ''bob'') ''name'' (VStr ''ob'') = Inr False"
proof -
  have h: "map_of (item_dict (person 1 30 ''bob'')) ''name'' = Some (VStr ''bob'')"
    by (simp add: person_def)
  have e: "\<exists>p q. ''bob'' = p @ ''ob'' @ q"
    by (rule exI [of _ "''b''"], rule exI [of _ "[]"]) simp
  show ?thesis
    using h e like_on_stored_string [OF h, of ex_heap "''ob''"] by simp
qed

lemma str_of_int_30: "str_of_int 30 = ''30''"
  by code_simp

text \<open>
  Claim C7 as stated fails on an integer field: \<^verbatim>\<open>'3'\<close> occurs in the rendering of
  \<^verbatim>\<open>30\<close>, yet \<^verbatim>\<open>like('age', '3')\<close> raises \<^verbatim>\<open>TypeError\<close> on a record with age 30.
\<close>

theorem like_integer_field_counterexample:
  "is_substr ''3'' (str_of_int 30) \<and>
   like_impl ex_heap (person 1 30 ''bob'') ''age'' (VStr ''3'') = Inl TypeError \<and>
   not_like_impl ex_heap (person 1 30 ''bob'') ''age'' (VStr ''4'') = Inl TypeError"
  by (simp add: str_of_int_30 like_impl_def not_like_impl_def getattr_def person_def)

text \<open>
  Claim C1. On a fresh session that has selected a schema with no entry in the store,
  \<^verbatim>\<open>all()\<close> (with or without filters) and \<^verbatim>\<open>get(pk)\<close> raise \<^verbatim>\<open>TypeError\<close>:
  \<^verbatim>\<open>store.get\<close> gives \<^verbatim>\<open>None\<close>, which is then measured or iterated.
\<close>

theorem all_get_on_absent_schema_raise:
  "fst (all H (query H GenericSession_init c)) = Inl TypeError \<and>
   fst (all H (like (query H GenericSession_init c) col v)) = Inl TypeError \<and>
   fst (get H (query H GenericSession_init c) pk_arg) = Inl TypeError"
  by (simp add: all_defs get_def query_def like_def GenericSession_init_def)

text \<open>
  Claim C3. A record type with exactly one declared column and no flagged column has no
  \<^verbatim>\<open>pk\<close> attribute, and constructing a record of it raises \<^verbatim>\<open>AttributeError\<close> at
  \<^verbatim>\<open>self.pk\<close>; the class object is left as it was, the column is not promoted.
\<close>

theorem init_one_unflagged_column_raises:
  "pk (MetaGenericModel_new name [(col, Column (GenericColumn_init t False u n))]) = None \<and>
   GenericModel_init (H(r := MetaGenericModel_new name [(col, Column (GenericColumn_init t False u n))])) r kwargs =
     (Inl AttributeError, H(r := MetaGenericModel_new name [(col, Column (GenericColumn_init t False u n))]))"
  by (simp add: GenericModel_init_def MetaGenericModel_new_def GenericColumn_init_def)

text \<open>
  Claim C8. Constructing a record of a type with two declared columns, none flagged as
  primary key, raises \<^verbatim>\<open>AttributeError\<close> at \<^verbatim>\<open>self.pk\<close>, before the statement that
  raises \<^verbatim>\<open>PKMissingException\<close> is reached; the class object is left as it was.
\<close>

theorem init_two_unflagged_columns_raises:
  "GenericModel_init
     (H(r := MetaGenericModel_new name
               [(a, Column (GenericColumn_init ta False ua na)),
                (b, Column (GenericColumn_init tb False ub nb))])) r kwargs =
     (Inl AttributeError,
      H(r := MetaGenericModel_new name
               [(a, Column (GenericColumn_init ta False ua na)),
                (b, Column (GenericColumn_init tb False ub nb))]))"
  by (simp add: GenericModel_init_def MetaGenericModel_new_def GenericColumn_init_def)

lemma all_filtered_offset: "all_filtered H (offset s n) = all_filtered H s"
  by (simp add: all_filtered_def offset_def cong: option.case_cong sum.case_cong)

lemma all_ordered_offset: "all_ordered H (offset s n) = all_ordered H s"
  by (simp add: all_ordered_def all_filtered_offset)
     (simp add: offset_def cong: option.case_cong sum.case_cong)

text \<open>
  Claim C2, as amended. With \<^verbatim>\<open>limit = 0\<close> no slice is taken at all: \<^verbatim>\<open>all()\<close>
  returns every matching record, in order, whatever the offset is, and the total count is
  the number of matching records.
\<close>

theorem limit_zero_ignores_offset:
  assumes "limit_val s = 0" and "all_ordered H s = Inr (Some ys)"
  shows "fst (all H s) = Inr (length ys, ys) \<and> fst (all H (offset s n)) = Inr (length ys, ys)"
  using assms by (simp add: all_def all_ordered_offset) (simp add: offset_def)

lemma five_people_ordered:
  "all_ordered ex_heap (limit (offset five_people 2) 0) =
     Inr (Some [person 1 30 ''b'', person 2 31 ''b'', person 3 32 ''a'', person 4 33 ''c'', person 5 34 ''d''])"
  by (simp add: all_ordered_def all_filtered_def limit_def offset_def five_people_def query_def
      GenericSession_init_def ex_heap_def MyGenericModel_eval)

theorem limit_zero_ignores_offset_witness:
  "limit_val (limit (offset five_people 2) 0) = 0 \<and>
   offset_val (limit (offset five_people 2) 0) = 2 \<and>
   fst (all ex_heap (limit (offset five_people 2) 0)) =
     Inr (5, [person 1 30 ''b'', person 2 31 ''b'', person 3 32 ''a'', person 4 33 ''c'', person 5 34 ''d''])"
proof -
  have h: "limit_val (limit (offset five_people 2) 0) = 0"
    by (simp add: limit_def)
  show ?thesis
    using h limit_zero_ignores_offset [OF h five_people_ordered]
    by (simp add: limit_def offset_def)
qed

text \<open>
  Claim C2 as stated fails: with five matching records, \<^verbatim>\<open>offset = 2\<close> and
  \<^verbatim>\<open>limit = 0\<close>, the result is not the third to fifth record.
\<close>

theorem limit_zero_offset_counterexample:
  "fst (all ex_heap (limit (offset five_people 2) 0)) \<noteq>
     Inr (5, [person 3 32 ''a'', person 4 33 ''c'', person 5 34 ''d''])"
  by (simp add: all_def five_people_ordered) (simp add: limit_def)

lemma py_call_idem: "py_call t a = Inr v \<Longrightarrow> py_call t v = Inr v"
  by (cases t; cases a) (auto split: sum.splits)

lemma get_loop_find:
  assumes "\<forall>it\<in>set xs. item_cls it = c" and "pk (H c) = Some k"
    and "map_of (col_defs (H c)) k = Some col" and "py_call (col_type col) a = Inr v"
  shows "get_loop H xs a = Inr (find (\<lambda>it. getattr H it k = Inr (Data v)) xs)"
  using assms
proof (induction xs arbitrary: a)
  case Nil
  show ?case by simp
next
  case (Cons x xs)
  from Cons.prems have cx: "item_cls x = c" by simp
  have "\<exists>b. getattr H x k = Inr b"
    using Cons.prems(3) cx by (cases "map_of (item_dict x) k") (simp_all add: getattr_def)
  then obtain b where gb: "getattr H x k = Inr b" ..
  have idem: "py_call (col_type col) v = Inr v"
    using Cons.prems(4) by (rule py_call_idem)
  have rest: "get_loop H xs v = Inr (find (\<lambda>it. getattr H it k = Inr (Data v)) xs)"
    using Cons.IH [of v] Cons.prems idem by simp
  show ?case
    using cx Cons.prems(2,3,4) gb rest by simp
qed

text \<open>
  Claim C6. When the store holds a sequence of records of the target schema, \<^verbatim>\<open>get(pk)\<close>
  gives the same result whatever filters, ordering, offset and limit are registered. When
  the schema has a primary-key column and \<^verbatim>\<open>pk\<close> converts to that column's declared
  type, the result is the first record of the whole sequence whose primary-key field
  equals the converted value, or \<^verbatim>\<open>None\<close> if there is none.
\<close>

theorem get_ignores_builder_state:
  "fst (get H (s\<lparr>order_by_cmd := ob, filters_cmd := fs, offset_val := off, limit_val := lim\<rparr>) pk_arg)
     = fst (get H s pk_arg) \<and>
   (store s (query_class s) = Some xs \<and> (\<forall>it\<in>set xs. item_cls it = c) \<and>
    pk (H c) = Some k \<and> map_of (col_defs (H c)) k = Some col \<and>
    py_call (col_type col) pk_arg = Inr v
    \<longrightarrow> fst (get H s pk_arg) = Inr (find (\<lambda>it. getattr H it k = Inr (Data v)) xs))"
proof (intro conjI impI)
  show "fst (get H (s\<lparr>order_by_cmd := ob, filters_cmd := fs, offset_val := off, limit_val := lim\<rparr>) pk_arg)
     = fst (get H s pk_arg)"
    by (simp add: get_def)
next
  assume a: "store s (query_class s) = Some xs \<and> (\<forall>it\<in>set xs. item_cls it = c) \<and>
    pk (H c) = Some k \<and> map_of (col_defs (H c)) k = Some col \<and>
    py_call (col_type col) pk_arg = Inr v"
  then have "get_loop H xs pk_arg = Inr (find (\<lambda>it. getattr H it k = Inr (Data v)) xs)"
    using get_loop_find [of xs c H k col pk_arg v] by blast
  with a show "fst (get H s pk_arg) = Inr (find (\<lambda>it. getattr H it k = Inr (Data v)) xs)"
    by (simp add: get_def)
qed

lemma int_of_str_2: "int_of_str ''2'' = Inr 2"
  by (simp add: int_of_str_def py_strip_def py_isspace_def py_isdigit_def digits_value_def)

theorem get_ignores_builder_state_witness:
  "store three_people (query_class three_people) =
     Some [person 1 30 ''b'', person 2 31 ''b'', person 3 32 ''a''] \<and>
   pk (ex_heap 0) = Some ''id'' \<and>
   map_of (col_defs (ex_heap 0)) ''id'' = Some (GenericColumn_init TInt True False False) \<and>
   py_call (col_type (GenericColumn_init TInt True False False)) (VStr ''2'') = Inr (VInt 2) \<and>
   fst (get ex_heap (limit (offset (order_by (like three_people ''name'' (VStr ''a'')) ''name desc'') 1) 1) (VStr ''2''))
     = Inr (Some (person 2 31 ''b'')) \<and>
   fst (get ex_heap three_people (VStr ''2'')) = Inr (Some (person 2 31 ''b''))"
proof -
  have h1: "store three_people (query_class three_people) =
     Some [person 1 30 ''b'', person 2 31 ''b'', person 3 32 ''a'']"
    by (simp add: three_people_def query_def GenericSession_init_def ex_heap_def MyGenericModel_eval)
  have h2: "\<forall>it\<in>set [person 1 30 ''b'', person 2 31 ''b'', person 3 32 ''a'']. item_cls it = 0"
    by (simp add: person_def)
  have h3: "pk (ex_heap 0) = Some ''id''"
    by (simp add: ex_heap_def MyGenericModel_eval)
  have h4: "map_of (col_defs (ex_heap 0)) ''id'' = Some (GenericColumn_init TInt True False False)"
    by (simp add: ex_heap_def MyGenericModel_eval)
  have h5: "py_call (col_type (GenericColumn_init TInt True False False)) (VStr ''2'') = Inr (VInt 2)"
    by (simp add: GenericColumn_init_def int_of_str_2)
  have b: "limit (offset (order_by (like three_people ''name'' (VStr ''a'')) ''name desc'') 1) 1 =
      three_people\<lparr>order_by_cmd := Some ''name desc'', filters_cmd := [(Like, ''name'', VStr ''a'')],
        offset_val := 1, limit_val := 1\<rparr>"
    by (simp add: limit_def offset_def order_by_def like_def three_people_def query_def GenericSession_init_def)
  note t = get_ignores_builder_state [where s = three_people and c = 0 and H = ex_heap
        and xs = "[person 1 30 ''b'', person 2 31 ''b'', person 3 32 ''a'']" and k = "''id''"
        and col = "GenericColumn_init TInt True False False"
        and pk_arg = "VStr ''2''" and v = "VInt 2" and ob = "Some ''name desc''"
        and fs = "[(Like, ''name'', VStr ''a'')]" and off = 1 and lim = 1]
  have g: "fst (get ex_heap three_people (VStr ''2'')) =
      Inr (find (\<lambda>it. getattr ex_heap it ''id'' = Inr (Data (VInt 2)))
             [person 1 30 ''b'', person 2 31 ''b'', person 3 32 ''a''])"
    using t h1 h2 h3 h4 h5 by blast
  have i: "fst (get ex_heap (three_people\<lparr>order_by_cmd := Some ''name desc'',
        filters_cmd := [(Like, ''name'', VStr ''a'')], offset_val := 1, limit_val := 1\<rparr>) (VStr ''2''))
      = fst (get ex_heap three_people (VStr ''2''))"
    using t by blast
  show ?thesis
    using h1 h3 h4 h5 g i by (simp add: b getattr_def person_def)
qed

lemma decorated_sorted_items:
  assumes "set qs = set (map (\<lambda>it. (key it, it)) data)"
  shows "sorted_wrt (\<lambda>a b. \<not> py_lt (key b) (key a)) (map snd qs) =
         sorted_wrt (\<lambda>p q. \<not> py_lt (fst q) (fst p)) qs"
proof -
  have k: "fst p = key (snd p)" if "p \<in> set qs" for p
    using that assms by auto
  have "sorted_wrt (\<lambda>a b. \<not> py_lt (key b) (key a)) (map snd qs) =
        sorted_wrt (\<lambda>p q. \<not> py_lt (key (snd q)) (key (snd p))) qs"
    by (simp add: sorted_wrt_map)
  also have "\<dots> = sorted_wrt (\<lambda>p q. \<not> py_lt (fst q) (fst p)) qs"
  proof
    assume a: "sorted_wrt (\<lambda>p q. \<not> py_lt (key (snd q)) (key (snd p))) qs"
    show "sorted_wrt (\<lambda>p q. \<not> py_lt (fst q) (fst p)) qs"
      by (rule sorted_wrt_mono_rel [OF _ a]) (simp add: k)
  next
    assume a: "sorted_wrt (\<lambda>p q. \<not> py_lt (fst q) (fst p)) qs"
    show "sorted_wrt (\<lambda>p q. \<not> py_lt (key (snd q)) (key (snd p))) qs"
      by (rule sorted_wrt_mono_rel [OF _ a]) (simp add: k)
  qed
  finally show ?thesis .
qed

lemma decorated_filter_items:
  assumes "set qs = set (map (\<lambda>it. (key it, it)) data)"
  shows "filter (\<lambda>it. key it = k) (map snd qs) = map snd (filter (\<lambda>p. fst p = k) qs)"
proof -
  have "filter (\<lambda>p. key (snd p) = k) qs = filter (\<lambda>p. fst p = k) qs"
    using assms by (intro filter_cong) auto
  then show ?thesis by (simp add: filter_map o_def)
qed

lemma py_sorted_asc:
  assumes "\<forall>it\<in>set data. getattr H it col = Inr (key it)"
  shows "\<exists>ys. py_sorted H data col False = Inr ys \<and> mset ys = mset data \<and>
           sorted_wrt (\<lambda>a b. \<not> py_lt (key b) (key a)) ys \<and>
           (\<forall>k. filter (\<lambda>it. key it = k) ys = filter (\<lambda>it. key it = k) data)"
proof -
  define ps where "ps = map (\<lambda>it. (key it, it)) data"
  define qs where "qs = stable_sort ps"
  have ak: "attr_keys H col data = Inr ps"
    unfolding ps_def using assms by (rule attr_keys_ok)
  have sp: "map snd ps = data"
    by (simp add: ps_def o_def)
  have m: "mset qs = mset ps"
    unfolding qs_def by (rule mset_stable_sort)
  then have st: "set qs = set (map (\<lambda>it. (key it, it)) data)"
    unfolding ps_def by (rule mset_eq_setD)
  have "image_mset snd (mset qs) = image_mset snd (mset ps)"
    by (simp only: m)
  then have 1: "mset (map snd qs) = mset data"
    by (simp only: mset_map [symmetric] sp)
  have "sorted_wrt (\<lambda>p q. \<not> py_lt (fst q) (fst p)) qs"
    unfolding qs_def by (rule sorted_stable_sort)
  then have 2: "sorted_wrt (\<lambda>a b. \<not> py_lt (key b) (key a)) (map snd qs)"
    by (simp only: decorated_sorted_items [OF st])
  have 3: "filter (\<lambda>it. key it = k) (map snd qs) = filter (\<lambda>it. key it = k) data" for k
  proof -
    have "filter (\<lambda>it. key it = k) (map snd qs) = map snd (filter (\<lambda>p. fst p = k) qs)"
      by (rule decorated_filter_items [OF st])
    also have "\<dots> = map snd (filter (\<lambda>p. fst p = k) ps)"
      by (simp only: qs_def filter_stable_sort)
    also have "\<dots> = filter (\<lambda>it. key it = k) data"
      by (simp add: ps_def filter_map o_def)
    finally show ?thesis .
  qed
  have 0: "py_sorted H data col False = Inr (map snd qs)"
    by (simp add: py_sorted_def ak qs_def)
  show ?thesis
  proof (intro exI conjI allI)
    show "py_sorted H data col False = Inr (map snd qs)" by (rule 0)
    show "mset (map snd qs) = mset data" by (rule 1)
    show "sorted_wrt (\<lambda>a b. \<not> py_lt (key b) (key a)) (map snd qs)" by (rule 2)
    show "filter (\<lambda>it. key it = k) (map snd qs) = filter (\<lambda>it. key it = k) data" for k by (rule 3)
  qed
qed

lemma py_sorted_desc:
  assumes "\<forall>it\<in>set data. getattr H it col = Inr (key it)"
  shows "\<exists>ys. py_sorted H data col True = Inr ys \<and> mset ys = mset data \<and>
           sorted_wrt (\<lambda>a b. \<not> py_lt (key a) (key b)) ys \<and>
           (\<forall>k. filter (\<lambda>it. key it = k) ys = filter (\<lambda>it. key it = k) data)"
proof -
  define ps where "ps = map (\<lambda>it. (key it, it)) data"
  define qs where "qs = stable_sort (rev ps)"
  have ak: "attr_keys H col data = Inr ps"
    unfolding ps_def using assms by (rule attr_keys_ok)
  have sp: "map snd ps = data"
    by (simp add: ps_def o_def)
  have m: "mset qs = mset ps"
    unfolding qs_def by (simp only: mset_stable_sort mset_rev)
  then have st: "set qs = set (map (\<lambda>it. (key it, it)) data)"
    unfolding ps_def by (rule mset_eq_setD)
  have "image_mset snd (mset qs) = image_mset snd (mset ps)"
    by (simp only: m)
  then have "mset (map snd qs) = mset data"
    by (simp only: mset_map [symmetric] sp)
  then have 1: "mset (map snd (rev qs)) = mset data"
    by simp
  have "sorted_wrt (\<lambda>p q. \<not> py_lt (fst q) (fst p)) qs"
    unfolding qs_def by (rule sorted_stable_sort)
  then have "sorted_wrt (\<lambda>a b. \<not> py_lt (key b) (key a)) (map snd qs)"
    by (simp only: decorated_sorted_items [OF st])
  then have "sorted_wrt (\<lambda>a b. \<not> py_lt (key a) (key b)) (rev (map snd qs))"
    by (simp only: sorted_wrt_rev)
  then have 2: "sorted_wrt (\<lambda>a b. \<not> py_lt (key a) (key b)) (map snd (rev qs))"
    by (simp only: rev_map)
  have 3: "filter (\<lambda>it. key it = k) (map snd (rev qs)) = filter (\<lambda>it. key it = k) data" for k
  proof -
    have "filter (\<lambda>it. key it = k) (map snd qs) = map snd (filter (\<lambda>p. fst p = k) qs)"
      by (rule decorated_filter_items [OF st])
    also have "\<dots> = map snd (filter (\<lambda>p. fst p = k) (rev ps))"
      by (simp only: qs_def filter_stable_sort)
    also have "\<dots> = rev (map snd (filter (\<lambda>p. fst p = k) ps))"
      by (simp only: rev_map rev_filter)
    also have "map snd (filter (\<lambda>p. fst p = k) ps) = filter (\<lambda>it. key it = k) data"
      by (simp add: ps_def filter_map o_def)
    finally have "rev (filter (\<lambda>it. key it = k) (map snd qs)) = filter (\<lambda>it. key it = k) data"
      by simp
    then show ?thesis by (simp only: rev_map rev_filter)
  qed
  have 0: "py_sorted H data col True = Inr (map snd (rev qs))"
    by (simp add: py_sorted_def ak qs_def)
  show ?thesis
  proof (intro exI conjI allI)
    show "py_sorted H data col True = Inr (map snd (rev qs))" by (rule 0)
    show "mset (map snd (rev qs)) = mset data" by (rule 1)
    show "sorted_wrt (\<lambda>a b. \<not> py_lt (key a) (key b)) (map snd (rev qs))" by (rule 2)
    show "filter (\<lambda>it. key it = k) (map snd (rev qs)) = filter (\<lambda>it. key it = k) data" for k
      by (rule 3)
  qed
qed

lemma order_by_sorts:
  assumes "order_by_cmd s = Some cmd"
    and "py_split cmd = [col, dir]"
    and "all_filtered H s = Inr (Some data)"
    and "\<forall>it\<in>set data. getattr H it col = Inr (key it)"
  shows "\<exists>ys. order_by_impl H (Some data) cmd = Inr ys \<and>
           mset ys = mset data \<and>
           (if dir = ''desc'' then sorted_wrt (\<lambda>a b. \<not> py_lt (key a) (key b)) ys
            else sorted_wrt (\<lambda>a b. \<not> py_lt (key b) (key a)) ys) \<and>
           (\<forall>k. filter (\<lambda>it. key it = k) ys = filter (\<lambda>it. key it = k) data) \<and>
           fst (all H s) =
             Inr (length ys,
                  if limit_val s \<noteq> 0
                  then py_slice ys (offset_val s) (offset_val s + limit_val s) else ys)"
proof -
  have ne: "cmd \<noteq> []"
    using assms(2) by (auto simp: py_split_def)
  have impl: "order_by_impl H (Some data) cmd = py_sorted H data col (dir = ''desc'')"
    by (simp add: order_by_impl_def assms(2))
  obtain ys where ys: "py_sorted H data col (dir = ''desc'') = Inr ys" "mset ys = mset data"
      "if dir = ''desc'' then sorted_wrt (\<lambda>a b. \<not> py_lt (key a) (key b)) ys
       else sorted_wrt (\<lambda>a b. \<not> py_lt (key b) (key a)) ys"
      "\<forall>k. filter (\<lambda>it. key it = k) ys = filter (\<lambda>it. key it = k) data"
    using py_sorted_asc [OF assms(4)] py_sorted_desc [OF assms(4)]
    by (cases "dir = ''desc''") auto
  have "all_ordered H s = Inr (Some ys)"
    by (simp add: all_ordered_def assms(1,3) ne impl ys(1))
  then have "fst (all H s) =
             Inr (length ys,
                  if limit_val s \<noteq> 0
                  then py_slice ys (offset_val s) (offset_val s + limit_val s) else ys)"
    by (simp add: all_def)
  with impl ys show ?thesis by auto
qed

lemma unpack_two_fails:
  "length ws \<noteq> 2 \<Longrightarrow> (case ws of [a, b] \<Rightarrow> f a b | _ \<Rightarrow> g) = g"
  by (cases ws rule: list.exhaust [case_product list.exhaust])
     (auto split: list.splits)

lemma order_by_impl_not_two_words:
  "length (py_split cmd) \<noteq> 2 \<Longrightarrow> order_by_impl H d cmd = Inl ValueError"
  by (simp add: order_by_impl_def unpack_two_fails)

lemma order_by_not_two_words:
  assumes "order_by_cmd s = Some cmd" and "all_filtered H s = Inr d"
    and "cmd \<noteq> []" and "length (py_split cmd) \<noteq> 2"
  shows "fst (all H s) = Inl ValueError"
proof -
  have "order_by_impl H d cmd = Inl ValueError"
    using assms(4) by (rule order_by_impl_not_two_words)
  then have "all_ordered H s = Inl ValueError"
    by (simp add: all_ordered_def assms(1,2,3))
  then show ?thesis by (simp add: all_def)
qed

text \<open>
  Claim C5, as amended. For an ordering directive of exactly two whitespace-separated
  words, a field and a direction, \<^verbatim>\<open>all()\<close> sorts the filtered records by the field's
  value before it counts and slices them: descending when the direction is \<^verbatim>\<open>desc\<close>,
  ascending for any other direction. The result is a permutation of the filtered
  records, and records with equal keys keep their relative order. For a non-empty
  directive that is not exactly two words, such as a field with the direction omitted,
  \<^verbatim>\<open>all()\<close> raises \<^verbatim>\<open>ValueError\<close> once the filter step has gone through.
\<close>

theorem order_by_is_stable_sort:
  assumes "order_by_cmd s = Some cmd" and "all_filtered H s = Inr d"
  shows "(py_split cmd = [col, dir] \<and> d = Some data \<and>
          (\<forall>it\<in>set data. getattr H it col = Inr (key it)) \<longrightarrow>
          (\<exists>ys. order_by_impl H (Some data) cmd = Inr ys \<and>
             mset ys = mset data \<and>
             (if dir = ''desc'' then sorted_wrt (\<lambda>a b. \<not> py_lt (key a) (key b)) ys
              else sorted_wrt (\<lambda>a b. \<not> py_lt (key b) (key a)) ys) \<and>
             (\<forall>k. filter (\<lambda>it. key it = k) ys = filter (\<lambda>it. key it = k) data) \<and>
             fst (all H s) =
               Inr (length ys,
                    if limit_val s \<noteq> 0
                    then py_slice ys (offset_val s) (offset_val s + limit_val s) else ys))) \<and>
         (cmd \<noteq> [] \<and> length (py_split cmd) \<noteq> 2 \<longrightarrow> fst (all H s) = Inl ValueError)"
proof (intro conjI impI)
  assume a: "py_split cmd = [col, dir] \<and> d = Some data \<and>
          (\<forall>it\<in>set data. getattr H it col = Inr (key it))"
  then have f: "all_filtered H s = Inr (Some data)"
    using assms(2) by simp
  from a have sp: "py_split cmd = [col, dir]"
    and k: "\<forall>it\<in>set data. getattr H it col = Inr (key it)" by simp_all
  show "\<exists>ys. order_by_impl H (Some data) cmd = Inr ys \<and>
             mset ys = mset data \<and>
             (if dir = ''desc'' then sorted_wrt (\<lambda>a b. \<not> py_lt (key a) (key b)) ys
              else sorted_wrt (\<lambda>a b. \<not> py_lt (key b) (key a)) ys) \<and>
             (\<forall>k. filter (\<lambda>it. key it = k) ys = filter (\<lambda>it. key it = k) data) \<and>
             fst (all H s) =
               Inr (length ys,
                    if limit_val s \<noteq> 0
                    then py_slice ys (offset_val s) (offset_val s + limit_val s) else ys)"
    by (rule order_by_sorts [OF assms(1) sp f k])
next
  assume "cmd \<noteq> [] \<and> length (py_split cmd) \<noteq> 2"
  then show "fst (all H s) = Inl ValueError"
    using order_by_not_two_words [OF assms] by simp
qed

lemma split_name_asc: "py_split ''name asc'' = [''name'', ''asc'']"
  by (simp add: py_split_def py_isspace_def)

lemma split_name: "py_split ''name'' = [''name'']"
  by (simp add: py_split_def py_isspace_def)

lemma three_people_sorted:
  "fst (all ex_heap (order_by three_people ''name asc'')) =
     Inr (3, [person 3 32 ''a'', person 1 30 ''b'', person 2 31 ''b''])"
  by (simp add: all_def all_ordered_def all_filtered_def order_by_def three_people_def query_def
      GenericSession_init_def ex_heap_def MyGenericModel_eval order_by_impl_def split_name_asc
      py_sorted_def getattr_def person_def stable_sort_def)

theorem order_by_is_stable_sort_witness:
  "order_by_cmd (order_by three_people ''name asc'') = Some ''name asc'' \<and>
   py_split ''name asc'' = [''name'', ''asc''] \<and>
   all_filtered ex_heap (order_by three_people ''name asc'') =
     Inr (Some [person 1 30 ''b'', person 2 31 ''b'', person 3 32 ''a'']) \<and>
   (\<exists>ys. order_by_impl ex_heap (Some [person 1 30 ''b'', person 2 31 ''b'', person 3 32 ''a''])
           ''name asc'' = Inr ys \<and>
         sorted_wrt (\<lambda>a b. \<not> py_lt (name_key b) (name_key a)) ys \<and>
         fst (all ex_heap (order_by three_people ''name asc'')) = Inr (length ys, ys)) \<and>
   fst (all ex_heap (order_by three_people ''name asc'')) =
     Inr (3, [person 3 32 ''a'', person 1 30 ''b'', person 2 31 ''b'']) \<and>
   order_by_cmd (order_by three_people ''name'') = Some ''name'' \<and>
   all_filtered ex_heap (order_by three_people ''name'') =
     Inr (Some [person 1 30 ''b'', person 2 31 ''b'', person 3 32 ''a'']) \<and>
   length (py_split ''name'') = 1 \<and>
   fst (all ex_heap (order_by three_people ''name'')) = Inl ValueError"
proof -
  have h1: "order_by_cmd (order_by three_people ''name asc'') = Some ''name asc''"
    by (simp add: order_by_def)
  have h3: "all_filtered ex_heap (order_by three_people ''name asc'') =
     Inr (Some [person 1 30 ''b'', person 2 31 ''b'', person 3 32 ''a''])"
    by (simp add: all_filtered_def order_by_def three_people_def query_def
        GenericSession_init_def ex_heap_def MyGenericModel_eval)
  have h4: "\<forall>it\<in>set [person 1 30 ''b'', person 2 31 ''b'', person 3 32 ''a''].
      getattr ex_heap it ''name'' = Inr (name_key it)"
    by (simp add: getattr_def person_def name_key_def)
  have l: "limit_val (order_by three_people ''name asc'') = 0"
    by (simp add: order_by_def three_people_def query_def GenericSession_init_def)
  note t = order_by_is_stable_sort [OF h1 h3, where col = "''name''" and dir = "''asc''"
      and data = "[person 1 30 ''b'', person 2 31 ''b'', person 3 32 ''a'']" and key = name_key]
  have "\<exists>ys. order_by_impl ex_heap (Some [person 1 30 ''b'', person 2 31 ''b'', person 3 32 ''a''])
           ''name asc'' = Inr ys \<and>
         mset ys = mset [person 1 30 ''b'', person 2 31 ''b'', person 3 32 ''a''] \<and>
         (if ''asc'' = ''desc'' then sorted_wrt (\<lambda>a b. \<not> py_lt (name_key a) (name_key b)) ys
          else sorted_wrt (\<lambda>a b. \<not> py_lt (name_key b) (name_key a)) ys) \<and>
         (\<forall>k. filter (\<lambda>it. name_key it = k) ys =
              filter (\<lambda>it. name_key it = k) [person 1 30 ''b'', person 2 31 ''b'', person 3 32 ''a'']) \<and>
         fst (all ex_heap (order_by three_people ''name asc'')) =
           Inr (length ys,
                if limit_val (order_by three_people ''name asc'') \<noteq> 0
                then py_slice ys (offset_val (order_by three_people ''name asc''))
                  (offset_val (order_by three_people ''name asc'') + limit_val (order_by three_people ''name asc''))
                else ys)"
    using t split_name_asc h4 by blast
  then have e: "\<exists>ys. order_by_impl ex_heap (Some [person 1 30 ''b'', person 2 31 ''b'', person 3 32 ''a''])
           ''name asc'' = Inr ys \<and>
         sorted_wrt (\<lambda>a b. \<not> py_lt (name_key b) (name_key a)) ys \<and>
         fst (all ex_heap (order_by three_people ''name asc'')) = Inr (length ys, ys)"
    by (auto simp: l)
  have g1: "order_by_cmd (order_by three_people ''name'') = Some ''name''"
    by (simp add: order_by_def)
  have g2: "all_filtered ex_heap (order_by three_people ''name'') =
     Inr (Some [person 1 30 ''b'', person 2 31 ''b'', person 3 32 ''a''])"
    by (simp add: all_filtered_def order_by_def three_people_def query_def
        GenericSession_init_def ex_heap_def MyGenericModel_eval)
  have g3: "length (py_split ''name'') = 1"
    by (simp add: split_name)
  have g4: "''name'' \<noteq> [] \<and> length (py_split ''name'') \<noteq> 2"
    by (simp add: split_name)
  have v: "fst (all ex_heap (order_by three_people ''name'')) = Inl ValueError"
    using order_by_is_stable_sort [OF g1 g2] g4 by blast
  from h1 split_name_asc h3 e three_people_sorted g1 g2 g3 v show ?thesis
    by (intro conjI)
qed

text \<open>
  Claim C5 as stated fails when the direction is omitted: the directive \<^verbatim>\<open>'name'\<close>
  makes \<^verbatim>\<open>all()\<close> raise \<^verbatim>\<open>ValueError\<close>, since the split does not give two words.
\<close>

theorem order_by_without_direction_counterexample:
  "fst (all ex_heap (order_by three_people ''name'')) = Inl ValueError"
  by (simp add: all_def all_ordered_def all_filtered_def order_by_def three_people_def query_def
      GenericSession_init_def ex_heap_def MyGenericModel_eval order_by_impl_def
      py_split_def py_isspace_def)

end
